theory Spec2Isabelle
  imports Main "HOL-Library.AList" "HOL-Library.Word"
begin

section \<open>Data model of \<open>rest_requests\<close>\<close>

text \<open>
  The module \<open>src/rest_requests/__init__.py\<close> is a thin asynchronous wrapper around an
  HTTP client library. Its own code is embedded below function by function; the client
  library (session, connector, response objects, the network behind them) is outside the
  module and appears as data: a response is a record of what its attributes and awaited
  methods yield, the network is a function from a request to the outcome of sending it,
  the connector constructor is a function from a proxy URL to a connector or an exception,
  and the calls the module makes on the library and on its logger are appended to a
  trace.

  What is taken for granted about the library: constructing a timeout or a session
  succeeds and touches nothing else; constructing a proxy connector from a URL, sending,
  \<open>json()\<close> and \<open>text()\<close> may raise; the library reads the headers and the body it is
  given and does not write to them.
  Whether a record handed to the logger is written anywhere is the logging
  configuration's business, not the module's; the trace records the logger call.

  The functions \<open>_request\<close> and \<open>_resolve_method\<close> are \<open>priv_request\<close> and
  \<open>priv_resolve_method\<close> here, since a name cannot start with an underscore. All
  arguments are explicit: the defaults of \<open>request\<close> are not modelled.
\<close>

text \<open>\<open>class RequestMethod(Enum)\<close>, lines 19-30.\<close>

datatype RequestMethod = GET | HEAD | POST | PUT | DELETE | OPTIONS | PATCH

text \<open>
  \<open>_JSONNode\<close>, line 15. A Python float is a 64-bit pattern; the module never computes
  with one. A Python value of type \<open>str | dict[str, Any]\<close> (the return type of
  \<open>_request\<close>) is untagged, so a text result is the node \<open>JStr\<close>.
\<close>

datatype JSONNode =
    JStr string
  | JInt int
  | JFloat "64 word"
  | JBool bool
  | JNone
  | JDict "(string \<times> JSONNode) list"
  | JList "JSONNode list"

text \<open>\<open>dict[str, str]\<close>: keys in insertion order, no key twice.\<close>

type_synonym dict = "(string \<times> string) list"

type_synonym addr = nat

text \<open>
  The exceptions a call can end with: the module's own \<open>RuntimeError\<close> (line 68), the
  client library's \<open>ClientResponseError\<close> with status, message and URL (line 71), the
  \<open>UnboundLocalError\<close> that line 94 would raise if no \<open>case\<close> of the \<open>match\<close> had
  bound \<open>request_func\<close>, the \<open>ValueError\<close> of the connector constructor (line 119) for
  a proxy URL it cannot parse, and any other exception raised inside the client library
  while sending or reading. The module catches none of them.
\<close>

datatype error =
    RuntimeError string
  | ClientResponseError int string string
  | UnboundLocalError
  | ValueError string
  | ClientError string

text \<open>\<open>aiohttp.ClientTimeout(total=..., sock_connect=..., sock_read=...)\<close>, lines 113-115.\<close>

record ClientTimeout =
  timeout_total :: "int option"
  sock_connect :: "int option"
  sock_read :: "int option"

text \<open>
  A connector, as \<open>ProxyConnector.from_url(proxy_url)\<close> of line 119 returns it, and the
  constructor itself: for each URL, the connector it returns or the exception it raises.
\<close>

datatype connector = ProxyConnector string

type_synonym connector_ctor = "string \<Rightarrow> error + connector"

text \<open>
  \<open>aiohttp.ClientSession(timeout=..., **optional_args)\<close>, lines 121-122: a session is
  what it was constructed with; without a \<open>connector\<close> argument it connects directly.
\<close>

record ClientSession =
  session_timeout_of :: ClientTimeout
  session_connector :: "connector option"

text \<open>The bound methods \<open>session.get\<close>, ..., \<open>session.patch\<close> of lines 81-93.\<close>

datatype request_func =
    Session_get ClientSession
  | Session_head ClientSession
  | Session_post ClientSession
  | Session_put ClientSession
  | Session_delete ClientSession
  | Session_options ClientSession
  | Session_patch ClientSession

text \<open>
  The response object of line 62: its attributes, and what awaiting \<open>response.json()\<close>
  and \<open>response.text()\<close> yields (a value, or an exception of the client library).
\<close>

record ClientResponse =
  content_type :: string
  status :: int
  reason :: string
  real_url :: string
  json :: "error + JSONNode"
  text_of :: "error + string"

text \<open>
  The calls the module makes on its collaborators, in the order it makes them: the
  connector constructor when it returns a connector (with the URL it was given),
  entering and leaving the session's \<open>async with\<close> block, the two logger calls (with
  the values interpolated into the message) and the invocation of the resolved sender
  with \<open>url\<close>, \<open>headers\<close> and \<open>json\<close>.
\<close>

datatype event =
    ProxyConnector_from_url string
  | ClientSession_enter ClientSession
  | Logger_debug RequestMethod string dict JSONNode
  | Logger_info RequestMethod string dict JSONNode
  | Send request_func string dict JSONNode
  | ClientSession_exit ClientSession

text \<open>
  The store. The caller passes \<open>headers\<close> and \<open>body\<close> by reference, so both live at
  addresses: header mappings in \<open>dict_heap\<close> (allocated below \<open>next_dict\<close>), JSON bodies in
  \<open>json_heap\<close>. The results of a call are fresh objects and are returned by value.
\<close>

record world =
  dict_heap :: "addr \<Rightarrow> dict"
  next_dict :: addr
  json_heap :: "addr \<Rightarrow> JSONNode"
  trace :: "event list"

text \<open>The network: the outcome of invoking a sender with \<open>url\<close>, \<open>headers\<close>, \<open>json\<close>.\<close>

type_synonym transport = "request_func \<Rightarrow> string \<Rightarrow> dict \<Rightarrow> JSONNode \<Rightarrow> error + ClientResponse"


section \<open>Primitive operations\<close>

text \<open>A dict display or the result of \<open>|\<close> is a new object at the next free address.\<close>

definition new_dict :: "dict \<Rightarrow> world \<Rightarrow> addr \<times> world" where
  "new_dict d w =
     (next_dict w,
      w\<lparr>dict_heap := (dict_heap w)(next_dict w := d), next_dict := Suc (next_dict w)\<rparr>)"

definition emit :: "event \<Rightarrow> world \<Rightarrow> world" where
  "emit e w = w\<lparr>trace := trace w @ [e]\<rparr>"

text \<open>
  Python's \<open>d1 | d2\<close> on the values: a copy of \<open>d1\<close> updated with each item of \<open>d2\<close> in
  turn; a key of \<open>d1\<close> keeps its place and takes the new value, a new key goes last.
\<close>

definition dict_or :: "dict \<Rightarrow> dict \<Rightarrow> dict" where
  "dict_or d1 d2 = fold (\<lambda>(k, v). AList.update k v) d2 d1"

text \<open>\<open>s.startswith(p)\<close>.\<close>

definition startswith :: "string \<Rightarrow> string \<Rightarrow> bool" where
  "startswith s p = (take (length p) s = p)"

text \<open>
  Modelled from the spec: \<open>response.raise_for_status()\<close> (line 71) is a method of the
  client library, which is not under src/. The spec: "if the HTTP status indicates failure
  (4xx/5xx), fails with an HTTPStatusError carrying the status code, reason, and effective
  URL".
\<close>

definition raise_for_status :: "ClientResponse \<Rightarrow> error + unit" where
  "raise_for_status response =
     (if 400 \<le> status response \<and> status response \<le> 599
      then Inl (ClientResponseError (status response) (reason response) (real_url response))
      else Inr ())"


section \<open>The module's functions\<close>

text \<open>
  \<open>_resolve_method\<close>, lines 75-94. The \<open>match\<close> tries its value patterns in order; when
  none matches, \<open>request_func\<close> is unbound at the \<open>return\<close>.
\<close>

definition priv_resolve_method :: "RequestMethod \<Rightarrow> ClientSession \<Rightarrow> error + request_func" where
  "priv_resolve_method method session =
     (if method = GET then Inr (Session_get session)
      else if method = HEAD then Inr (Session_head session)
      else if method = POST then Inr (Session_post session)
      else if method = PUT then Inr (Session_put session)
      else if method = DELETE then Inr (Session_delete session)
      else if method = OPTIONS then Inr (Session_options session)
      else if method = PATCH then Inr (Session_patch session)
      else Inl UnboundLocalError)"

text \<open>
  Lines 63-70 of \<open>_request\<close>: the value bound to \<open>response_body\<close>, or the exception that
  ends the call there.
\<close>

definition decode_response :: "ClientResponse \<Rightarrow> error + JSONNode" where
  "decode_response response =
     (if content_type response = ''application/json'' then json response
      else if startswith (content_type response) ''text/plain''
      then (case text_of response of Inl e \<Rightarrow> Inl e | Inr s \<Rightarrow> Inr (JStr s))
      else Inl (RuntimeError (''Unsupported response content type: '' @ content_type response)))"

text \<open>
  Lines 45-47 of \<open>_request\<close>: \<open>headers = (headers or {}) | {"Content-Type": ...}\<close>.
  \<open>headers or {}\<close> is the caller's object unless that is \<open>None\<close> or empty, in which
  case it is a new empty dict; the display on the right and the result of \<open>|\<close> are new
  objects, and the name \<open>headers\<close> is rebound to the latter, whose address is returned.
\<close>

definition merge_headers :: "addr option \<Rightarrow> world \<Rightarrow> addr \<times> world" where
  "merge_headers headers w0 =
     (let (lhs, w1) = (case headers of
                         None \<Rightarrow> new_dict [] w0
                       | Some a \<Rightarrow> if dict_heap w0 a \<noteq> [] then (a, w0) else new_dict [] w0);
          (rhs, w2) = new_dict [(''Content-Type'', ''application/json'')] w1
      in new_dict (dict_or (dict_heap w2 lhs) (dict_heap w2 rhs)) w2)"

text \<open>\<open>_request\<close>, lines 33-72.\<close>

definition priv_request ::
  "transport \<Rightarrow> RequestMethod \<Rightarrow> string \<Rightarrow> addr option \<Rightarrow> addr \<Rightarrow> ClientSession \<Rightarrow> bool
     \<Rightarrow> world \<Rightarrow> (error + JSONNode) \<times> world" where
  "priv_request net method url headers body session dry_run w0 =
     (let (headers', w1) = merge_headers headers w0
      in case priv_resolve_method method session of
           Inl e \<Rightarrow> (Inl e, w1)
         | Inr request_func \<Rightarrow>
             let w2 = emit (Logger_debug method url (dict_heap w1 headers') (json_heap w1 body)) w1
             in if dry_run
                then (Inr (JDict []),
                      emit (Logger_info method url (dict_heap w2 headers') (json_heap w2 body)) w2)
                else
                  let w3 = emit (Send request_func url (dict_heap w2 headers') (json_heap w2 body)) w2
                  in case net request_func url (dict_heap w2 headers') (json_heap w2 body) of
                       Inl e \<Rightarrow> (Inl e, w3)
                     | Inr response \<Rightarrow>
                         (case decode_response response of
                            Inl e \<Rightarrow> (Inl e, w3)
                          | Inr response_body \<Rightarrow>
                              (case raise_for_status response of
                                 Inl e \<Rightarrow> (Inl e, w3)
                               | Inr _ \<Rightarrow> (Inr response_body, w3))))"

text \<open>
  \<open>request\<close>, lines 97-131. \<open>optional_args\<close> is a local dict. When \<open>proxy_url\<close> is given,
  the connector is constructed first (line 119); if the constructor raises, the call ends
  there, before any session exists. Otherwise the session's \<open>async with\<close> block is
  entered, and left on every path with the value or the exception of \<open>_request\<close>.
\<close>

definition request ::
  "connector_ctor \<Rightarrow> transport \<Rightarrow> RequestMethod \<Rightarrow> string \<Rightarrow> addr option \<Rightarrow> addr \<Rightarrow> int
     \<Rightarrow> string option \<Rightarrow> bool \<Rightarrow> world \<Rightarrow> (error + JSONNode) \<times> world" where
  "request from_url net method url headers body timeout proxy_url dry_run w0 =
     (let session_timeout =
            \<lparr>timeout_total = None, sock_connect = Some timeout, sock_read = Some timeout\<rparr>;
          optional_args = []
      in case (case proxy_url of
                 None \<Rightarrow> Inr (optional_args, w0)
               | Some p \<Rightarrow>
                   (case from_url p of
                      Inl e \<Rightarrow> Inl e
                    | Inr c \<Rightarrow>
                        Inr (AList.update ''connector'' c optional_args,
                             emit (ProxyConnector_from_url p) w0))) of
           Inl e \<Rightarrow> (Inl e, w0)
         | Inr (optional_args, w1) \<Rightarrow>
             let session = \<lparr>session_timeout_of = session_timeout,
                            session_connector = map_of optional_args ''connector''\<rparr>;
                 w2 = emit (ClientSession_enter session) w1;
                 (result, w3) = priv_request net method url headers body session dry_run w2
             in (result, emit (ClientSession_exit session) w3))"


section \<open>Observations on a world\<close>

text \<open>
  The mapping a call sends and logs: the object \<open>headers\<close> is rebound to at line 45, read
  from the store after the merge.
\<close>

definition effective_headers :: "addr option \<Rightarrow> world \<Rightarrow> dict" where
  "effective_headers headers w = (let (a, w') = merge_headers headers w in dict_heap w' a)"

text \<open>The proxy URLs connectors were constructed from, in order.\<close>

definition connectors_constructed :: "event list \<Rightarrow> string list" where
  "connectors_constructed es =
     concat (map (\<lambda>e. case e of ProxyConnector_from_url p \<Rightarrow> [p] | _ \<Rightarrow> []) es)"

text \<open>The sessions constructed and entered, in order.\<close>

definition sessions_entered :: "event list \<Rightarrow> ClientSession list" where
  "sessions_entered es =
     concat (map (\<lambda>e. case e of ClientSession_enter s \<Rightarrow> [s] | _ \<Rightarrow> []) es)"

text \<open>The send operations invoked, in order: sender, URL, headers, body.\<close>

definition sends :: "event list \<Rightarrow> (request_func \<times> string \<times> dict \<times> JSONNode) list" where
  "sends es = concat (map (\<lambda>e. case e of Send f u h b \<Rightarrow> [(f, u, h, b)] | _ \<Rightarrow> []) es)"

text \<open>The session a sender is bound to.\<close>

fun session_of :: "request_func \<Rightarrow> ClientSession" where
  "session_of (Session_get s) = s"
| "session_of (Session_head s) = s"
| "session_of (Session_post s) = s"
| "session_of (Session_put s) = s"
| "session_of (Session_delete s) = s"
| "session_of (Session_options s) = s"
| "session_of (Session_patch s) = s"

text \<open>
  What line 117-119 give the session constructor: no connector when \<open>proxy_url\<close> is
  omitted, the connector constructed from it otherwise, or the constructor's exception.
\<close>

definition connector_for :: "connector_ctor \<Rightarrow> string option \<Rightarrow> error + connector option" where
  "connector_for from_url proxy_url =
     (case proxy_url of
        None \<Rightarrow> Inr None
      | Some p \<Rightarrow> (case from_url p of Inl e \<Rightarrow> Inl e | Inr c \<Rightarrow> Inr (Some c)))"

text \<open>A caller that makes \<open>n\<close> calls in a row with the same arguments.\<close>

fun request_n ::
  "nat \<Rightarrow> connector_ctor \<Rightarrow> transport \<Rightarrow> RequestMethod \<Rightarrow> string \<Rightarrow> addr option \<Rightarrow> addr \<Rightarrow> int
     \<Rightarrow> string option \<Rightarrow> bool \<Rightarrow> world \<Rightarrow> (error + JSONNode) list \<times> world" where
  "request_n 0 from_url net method url headers body timeout proxy_url dry_run w = ([], w)"
| "request_n (Suc n) from_url net method url headers body timeout proxy_url dry_run w =
     (let (r, w1) = request from_url net method url headers body timeout proxy_url dry_run w;
          (rs, w2) = request_n n from_url net method url headers body timeout proxy_url dry_run w1
      in (r # rs, w2))"


section \<open>Example inputs\<close>

text \<open>
  A store with one header mapping at address 0 and one JSON body at address 0, nothing
  done yet; the session a call with timeout 600 and no proxy constructs; and the responses
  of the spec's examples: a JSON body, a plain text body with a charset parameter, an XML
  body with status 404, and a JSON body with status 404. The connector constructor of the
  examples accepts a URL that starts with a proxy scheme and raises \<open>ValueError\<close> for
  any other string, as \<open>ProxyConnector.from_url\<close> does for \<open>not a url\<close>; the network
  of the examples answers every request with the JSON response.
\<close>

definition world0 :: world where
  "world0 =
     \<lparr>dict_heap = (\<lambda>_. [])(0 := [(''Accept'', ''*/*''), (''Content-Type'', ''text/xml'')]),
      next_dict = 1,
      json_heap = (\<lambda>_. JNone)(0 := JDict [(''job'', JInt 7)]),
      trace = []\<rparr>"

definition session0 :: ClientSession where
  "session0 =
     \<lparr>session_timeout_of =
        \<lparr>timeout_total = None, sock_connect = Some 600, sock_read = Some 600\<rparr>,
      session_connector = None\<rparr>"

definition response_json :: ClientResponse where
  "response_json =
     \<lparr>content_type = ''application/json'', status = 200, reason = ''OK'',
      real_url = ''http://host/jobs'', json = Inr (JDict [(''a'', JInt 1)]),
      text_of = Inr ''{a: 1}''\<rparr>"

definition response_text :: ClientResponse where
  "response_text =
     \<lparr>content_type = ''text/plain; charset=utf-8'', status = 200, reason = ''OK'',
      real_url = ''http://host/jobs'', json = Inl (ClientError ''ContentTypeError''),
      text_of = Inr ''ok''\<rparr>"

definition response_xml :: ClientResponse where
  "response_xml =
     \<lparr>content_type = ''application/xml'', status = 404, reason = ''Not Found'',
      real_url = ''http://host/jobs'', json = Inl (ClientError ''ContentTypeError''),
      text_of = Inr ''<a/>''\<rparr>"

definition response_404 :: ClientResponse where
  "response_404 =
     \<lparr>content_type = ''application/json'', status = 404, reason = ''Not Found'',
      real_url = ''http://host/jobs'', json = Inr (JDict [(''error'', JStr ''no such job'')]),
      text_of = Inr ''no such job''\<rparr>"

definition from_url0 :: connector_ctor where
  "from_url0 u =
     (if startswith u ''socks5://'' \<or> startswith u ''socks4://'' \<or> startswith u ''http://''
      then Inr (ProxyConnector u)
      else Inl (ValueError ''Invalid scheme component''))"

definition network0 :: transport where
  "network0 f u h b = Inr response_json"


section \<open>Verb resolution\<close>

text \<open>
  C5. Every \<open>RequestMethod\<close> variant resolves to the session's sender of the same verb:
  GET to \<open>session.get\<close>, HEAD to \<open>session.head\<close>, POST to \<open>session.post\<close>, PUT to
  \<open>session.put\<close>, DELETE to \<open>session.delete\<close>, OPTIONS to \<open>session.options\<close>, PATCH to
  \<open>session.patch\<close>; and the mapping is exhaustive: no variant leaves \<open>request_func\<close>
  unbound.
\<close>

theorem resolve_method_dispatch:
  "priv_resolve_method GET session = Inr (Session_get session)
   \<and> priv_resolve_method HEAD session = Inr (Session_head session)
   \<and> priv_resolve_method POST session = Inr (Session_post session)
   \<and> priv_resolve_method PUT session = Inr (Session_put session)
   \<and> priv_resolve_method DELETE session = Inr (Session_delete session)
   \<and> priv_resolve_method OPTIONS session = Inr (Session_options session)
   \<and> priv_resolve_method PATCH session = Inr (Session_patch session)
   \<and> (\<forall>method. priv_resolve_method method session \<noteq> Inl UnboundLocalError)"
proof -
  have "priv_resolve_method m session \<noteq> Inl UnboundLocalError" for m
    by (cases m) (simp_all add: priv_resolve_method_def)
  then show ?thesis
    by (simp add: priv_resolve_method_def)
qed


section \<open>Auxiliary facts\<close>

text \<open>What \<open>emit\<close> and the header merge change, and what they leave alone.\<close>

lemma emit_sel:
  "trace (emit e w) = trace w @ [e]"
  "json_heap (emit e w) = json_heap w"
  "dict_heap (emit e w) = dict_heap w"
  "next_dict (emit e w) = next_dict w"
  by (simp_all add: emit_def)

lemma priv_resolve_method_total:
  "\<exists>f. priv_resolve_method m s = Inr f \<and> session_of f = s"
  by (cases m) (simp_all add: priv_resolve_method_def)

lemma trace_merge_headers: "trace (snd (merge_headers h w)) = trace w"
  by (simp add: merge_headers_def new_dict_def Let_def split: option.splits prod.splits)

lemma json_heap_merge_headers: "json_heap (snd (merge_headers h w)) = json_heap w"
  by (simp add: merge_headers_def new_dict_def Let_def split: option.splits prod.splits)

lemma dict_heap_merge_headers:
  "a < next_dict w \<Longrightarrow> dict_heap (snd (merge_headers h w)) a = dict_heap w a"
  by (simp add: merge_headers_def new_dict_def Let_def split: option.splits prod.splits)

lemma next_dict_merge_headers: "next_dict w < next_dict (snd (merge_headers h w))"
  by (simp add: merge_headers_def new_dict_def Let_def split: option.splits prod.splits)

lemma fresh_merge_headers: "next_dict w \<le> fst (merge_headers h w)"
  by (simp add: merge_headers_def new_dict_def Let_def split: option.splits prod.splits)

lemma effective_headers_emit: "effective_headers h (emit e w) = effective_headers h w"
  by (simp add: effective_headers_def merge_headers_def new_dict_def emit_def Let_def split: option.splits prod.splits)

text \<open>
  \<open>_request\<close>: the calls it makes, the store it leaves, and the value or exception it ends
  with, in terms of the resolved sender and the outcome of the send.
\<close>

lemma priv_request_trace:
  "trace (snd (priv_request net m url h b s d w)) =
     trace w @ (case priv_resolve_method m s of
                  Inl e \<Rightarrow> []
                | Inr f \<Rightarrow> [Logger_debug m url (effective_headers h w) (json_heap w b),
                            if d then Logger_info m url (effective_headers h w) (json_heap w b)
                            else Send f url (effective_headers h w) (json_heap w b)])"
proof (cases "merge_headers h w")
  case (Pair a w1)
  have "trace w1 = trace w" "json_heap w1 = json_heap w"
    using trace_merge_headers [of h w] json_heap_merge_headers [of h w] Pair by simp_all
  then show ?thesis
    using Pair
    by (simp add: priv_request_def effective_headers_def emit_def Let_def split: sum.splits)
qed

lemma priv_request_json_heap:
  "json_heap (snd (priv_request net m url h b s d w)) = json_heap w"
proof (cases "merge_headers h w")
  case (Pair a w1)
  have "json_heap w1 = json_heap w"
    using json_heap_merge_headers [of h w] Pair by simp
  then show ?thesis
    using Pair
    by (simp add: priv_request_def emit_def Let_def split: sum.splits)
qed

lemma priv_request_dict_heap:
  assumes "a < next_dict w"
  shows "dict_heap (snd (priv_request net m url h b s d w)) a = dict_heap w a"
proof (cases "merge_headers h w")
  case (Pair a' w1)
  have "dict_heap w1 a = dict_heap w a"
    using dict_heap_merge_headers [OF assms, of h] Pair by simp
  then show ?thesis
    using Pair
    by (simp add: priv_request_def emit_def Let_def split: sum.splits)
qed

lemma priv_request_next_dict:
  "next_dict w < next_dict (snd (priv_request net m url h b s d w))"
proof (cases "merge_headers h w")
  case (Pair a' w1)
  have "next_dict w < next_dict w1"
    using next_dict_merge_headers [of w h] Pair by simp
  then show ?thesis
    using Pair
    by (simp add: priv_request_def emit_def Let_def split: sum.splits)
qed

lemma priv_request_result:
  "fst (priv_request net m url h b s d w) =
     (case priv_resolve_method m s of
        Inl e \<Rightarrow> Inl e
      | Inr f \<Rightarrow>
          if d then Inr (JDict [])
          else (case net f url (effective_headers h w) (json_heap w b) of
                  Inl e \<Rightarrow> Inl e
                | Inr r \<Rightarrow>
                    (case decode_response r of
                       Inl e \<Rightarrow> Inl e
                     | Inr v \<Rightarrow> (case raise_for_status r of Inl e \<Rightarrow> Inl e | Inr _ \<Rightarrow> Inr v))))"
proof (cases "merge_headers h w")
  case (Pair a w1)
  have "json_heap w1 = json_heap w"
    using json_heap_merge_headers [of h w] Pair by simp
  then show ?thesis
    using Pair
    by (simp add: priv_request_def effective_headers_def emit_def Let_def split: sum.splits)
qed


text \<open>
  The same for \<open>request\<close>, which wraps \<open>_request\<close> in the session it constructs, unless
  the connector constructor raises.
\<close>

lemma priv_request_dry_net:
  "priv_request net m url h b s True w = priv_request net' m url h b s True w"
  by (simp add: priv_request_def Let_def split: sum.splits prod.splits)

lemma request_fail:
  "connector_for from_url p = Inl e \<Longrightarrow> request from_url net m url h b t p d w = (Inl e, w)"
  by (cases p) (auto simp add: connector_for_def request_def split: sum.splits)

lemma request_unfold:
  "connector_for from_url p = Inr co \<Longrightarrow>
   request from_url net m url h b t p d w =
     (let s = \<lparr>session_timeout_of =
                  \<lparr>timeout_total = None, sock_connect = Some t, sock_read = Some t\<rparr>,
                session_connector = co\<rparr>;
          w2 = emit (ClientSession_enter s)
                 (case p of None \<Rightarrow> w | Some q \<Rightarrow> emit (ProxyConnector_from_url q) w);
          rw = priv_request net m url h b s d w2
      in (fst rw, emit (ClientSession_exit s) (snd rw)))"
  by (cases p)
     (auto simp add: connector_for_def request_def Let_def split: sum.splits prod.splits)

lemma request_trace:
  "connector_for from_url p = Inr co \<Longrightarrow>
   trace (snd (request from_url net m url h b t p d w)) =
     trace w
     @ (case p of None \<Rightarrow> [] | Some q \<Rightarrow> [ProxyConnector_from_url q])
     @ [ClientSession_enter
          \<lparr>session_timeout_of =
             \<lparr>timeout_total = None, sock_connect = Some t, sock_read = Some t\<rparr>,
           session_connector = co\<rparr>]
     @ (case priv_resolve_method m
               \<lparr>session_timeout_of =
                  \<lparr>timeout_total = None, sock_connect = Some t, sock_read = Some t\<rparr>,
                session_connector = co\<rparr> of
          Inl e \<Rightarrow> []
        | Inr f \<Rightarrow> [Logger_debug m url (effective_headers h w) (json_heap w b),
                    if d then Logger_info m url (effective_headers h w) (json_heap w b)
                    else Send f url (effective_headers h w) (json_heap w b)])
     @ [ClientSession_exit
          \<lparr>session_timeout_of =
             \<lparr>timeout_total = None, sock_connect = Some t, sock_read = Some t\<rparr>,
           session_connector = co\<rparr>]"
  by (cases p)
     (simp_all add: request_unfold Let_def priv_request_trace effective_headers_emit emit_sel
        split: sum.splits)

lemma request_json_heap:
  "json_heap (snd (request from_url net m url h b t p d w)) = json_heap w"
proof (cases "connector_for from_url p")
  case (Inl e)
  then show ?thesis by (simp add: request_fail)
next
  case (Inr co)
  then show ?thesis
    by (cases p) (simp_all add: request_unfold Let_def priv_request_json_heap emit_sel)
qed

lemma request_dict_heap:
  assumes "a < next_dict w"
  shows "dict_heap (snd (request from_url net m url h b t p d w)) a = dict_heap w a"
proof (cases "connector_for from_url p")
  case (Inl e)
  then show ?thesis by (simp add: request_fail)
next
  case (Inr co)
  then show ?thesis
    using assms
    by (cases p) (simp_all add: request_unfold Let_def priv_request_dict_heap emit_sel)
qed

lemma request_next_dict:
  "next_dict w \<le> next_dict (snd (request from_url net m url h b t p d w))"
proof (cases "connector_for from_url p")
  case (Inl e)
  then show ?thesis by (simp add: request_fail)
next
  case (Inr co)
  have "next_dict w \<le> next_dict (snd (priv_request net m url h b s d w'))"
    if "next_dict w' = next_dict w" for w' s
    using priv_request_next_dict [of w' net m url h b s d] that by simp
  then show ?thesis
    unfolding request_unfold [OF Inr]
    by (cases p) (simp_all add: Let_def emit_sel)
qed

lemma request_result:
  "connector_for from_url p = Inr co \<Longrightarrow>
   fst (request from_url net m url h b t p d w) =
     (case priv_resolve_method m
             \<lparr>session_timeout_of =
                \<lparr>timeout_total = None, sock_connect = Some t, sock_read = Some t\<rparr>,
              session_connector = co\<rparr> of
        Inl e \<Rightarrow> Inl e
      | Inr f \<Rightarrow>
          if d then Inr (JDict [])
          else (case net f url (effective_headers h w) (json_heap w b) of
                  Inl e \<Rightarrow> Inl e
                | Inr r \<Rightarrow>
                    (case decode_response r of
                       Inl e \<Rightarrow> Inl e
                     | Inr v \<Rightarrow> (case raise_for_status r of Inl e \<Rightarrow> Inl e | Inr _ \<Rightarrow> Inr v))))"
  by (cases p)
     (simp_all add: request_unfold Let_def priv_request_result effective_headers_emit emit_sel
        split: sum.splits)

lemma request_events:
  assumes "connector_for from_url p = Inr co"
  shows "\<exists>f. priv_resolve_method m
            \<lparr>session_timeout_of =
               \<lparr>timeout_total = None, sock_connect = Some t, sock_read = Some t\<rparr>,
             session_connector = co\<rparr> = Inr f
       \<and> session_of f =
            \<lparr>session_timeout_of =
               \<lparr>timeout_total = None, sock_connect = Some t, sock_read = Some t\<rparr>,
             session_connector = co\<rparr>
       \<and> trace (snd (request from_url net m url h b t p d w)) =
            trace w
            @ (case p of None \<Rightarrow> [] | Some q \<Rightarrow> [ProxyConnector_from_url q])
            @ [ClientSession_enter
                 \<lparr>session_timeout_of =
                    \<lparr>timeout_total = None, sock_connect = Some t, sock_read = Some t\<rparr>,
                  session_connector = co\<rparr>,
               Logger_debug m url (effective_headers h w) (json_heap w b),
               if d then Logger_info m url (effective_headers h w) (json_heap w b)
               else Send f url (effective_headers h w) (json_heap w b),
               ClientSession_exit
                 \<lparr>session_timeout_of =
                    \<lparr>timeout_total = None, sock_connect = Some t, sock_read = Some t\<rparr>,
                  session_connector = co\<rparr>]"
proof -
  obtain f where f: "priv_resolve_method m
      \<lparr>session_timeout_of = \<lparr>timeout_total = None, sock_connect = Some t, sock_read = Some t\<rparr>,
       session_connector = co\<rparr> = Inr f"
    and "session_of f =
      \<lparr>session_timeout_of = \<lparr>timeout_total = None, sock_connect = Some t, sock_read = Some t\<rparr>,
       session_connector = co\<rparr>"
    using priv_resolve_method_total by blast
  then show ?thesis
    by (simp add: request_trace [OF assms])
qed

lemma request_sends_live:
  assumes "connector_for from_url p = Inr co"
  shows "\<exists>f. session_of f =
            \<lparr>session_timeout_of =
               \<lparr>timeout_total = None, sock_connect = Some t, sock_read = Some t\<rparr>,
             session_connector = co\<rparr>
          \<and> sends (trace (snd (request from_url net m url h b t p False w))) =
              sends (trace w) @ [(f, url, effective_headers h w, json_heap w b)]"
proof -
  from request_events [OF assms, of m t net url h b False w]
  obtain f where f: "session_of f =
      \<lparr>session_timeout_of = \<lparr>timeout_total = None, sock_connect = Some t, sock_read = Some t\<rparr>,
       session_connector = co\<rparr>"
    and tr: "trace (snd (request from_url net m url h b t p False w)) =
      trace w
      @ (case p of None \<Rightarrow> [] | Some q \<Rightarrow> [ProxyConnector_from_url q])
      @ [ClientSession_enter
           \<lparr>session_timeout_of =
              \<lparr>timeout_total = None, sock_connect = Some t, sock_read = Some t\<rparr>,
            session_connector = co\<rparr>,
         Logger_debug m url (effective_headers h w) (json_heap w b),
         Send f url (effective_headers h w) (json_heap w b),
         ClientSession_exit
           \<lparr>session_timeout_of =
              \<lparr>timeout_total = None, sock_connect = Some t, sock_read = Some t\<rparr>,
            session_connector = co\<rparr>]"
    by auto
  have "sends (trace (snd (request from_url net m url h b t p False w))) =
      sends (trace w) @ [(f, url, effective_headers h w, json_heap w b)]"
    unfolding tr by (cases p) (simp_all add: sends_def)
  with f show ?thesis by (intro exI [of _ f] conjI)
qed

lemma request_sends_dry:
  "sends (trace (snd (request from_url net m url h b t p True w))) = sends (trace w)"
proof (cases "connector_for from_url p")
  case (Inl e)
  then show ?thesis by (simp add: request_fail)
next
  case (Inr co)
  from request_events [OF Inr, of m t net url h b True w]
  obtain f where tr: "trace (snd (request from_url net m url h b t p True w)) =
      trace w
      @ (case p of None \<Rightarrow> [] | Some q \<Rightarrow> [ProxyConnector_from_url q])
      @ [ClientSession_enter
           \<lparr>session_timeout_of =
              \<lparr>timeout_total = None, sock_connect = Some t, sock_read = Some t\<rparr>,
            session_connector = co\<rparr>,
         Logger_debug m url (effective_headers h w) (json_heap w b),
         Logger_info m url (effective_headers h w) (json_heap w b),
         ClientSession_exit
           \<lparr>session_timeout_of =
              \<lparr>timeout_total = None, sock_connect = Some t, sock_read = Some t\<rparr>,
            session_connector = co\<rparr>]"
    by auto
  show ?thesis
    unfolding tr by (cases p) (simp_all add: sends_def)
qed

lemma request_sends_carry:
  "\<exists>fs. sends (trace (snd (request from_url net m url h b t p d w))) =
          sends (trace w) @ map (\<lambda>f. (f, url, effective_headers h w, json_heap w b)) fs"
proof (cases "d \<or> (\<exists>e. connector_for from_url p = Inl e)")
  case True
  then have "sends (trace (snd (request from_url net m url h b t p d w))) =
      sends (trace w) @ map (\<lambda>f. (f, url, effective_headers h w, json_heap w b)) []"
    by (auto simp add: request_sends_dry request_fail)
  then show ?thesis by (rule exI)
next
  case False
  then obtain co where co: "connector_for from_url p = Inr co" and d: "\<not> d"
    by (cases "connector_for from_url p") auto
  from request_sends_live [OF co, of t net m url h b w] d
  obtain f where "sends (trace (snd (request from_url net m url h b t p d w))) =
      sends (trace w) @ map (\<lambda>f. (f, url, effective_headers h w, json_heap w b)) [f]"
    by auto
  then show ?thesis by (rule exI)
qed

lemma request_sessions_entered:
  "connector_for from_url p = Inr co \<Longrightarrow>
   sessions_entered (trace (snd (request from_url net m url h b t p d w))) =
     sessions_entered (trace w)
     @ [\<lparr>session_timeout_of =
           \<lparr>timeout_total = None, sock_connect = Some t, sock_read = Some t\<rparr>,
         session_connector = co\<rparr>]"
  using request_events [of from_url p co m t net url h b d w]
  by (cases p) (auto simp add: sessions_entered_def)

lemma request_connectors_constructed:
  "connector_for from_url p = Inr co \<Longrightarrow>
   connectors_constructed (trace (snd (request from_url net m url h b t p d w))) =
     connectors_constructed (trace w) @ (case p of None \<Rightarrow> [] | Some q \<Rightarrow> [q])"
  using request_events [of from_url p co m t net url h b d w]
  by (cases p) (auto simp add: connectors_constructed_def)

text \<open>The content types of the two decoding branches exclude each other.\<close>

lemma startswith_text_not_json:
  "startswith c ''text/plain'' \<Longrightarrow> c \<noteq> ''application/json''"
  by (auto simp add: startswith_def)

text \<open>The merged headers as a value.\<close>

lemma effective_headers_None: "effective_headers None w = [(''Content-Type'', ''application/json'')]"
  by (simp add: effective_headers_def merge_headers_def new_dict_def dict_or_def)

lemma effective_headers_Some:
  "a < next_dict w \<Longrightarrow>
   effective_headers (Some a) w = AList.update ''Content-Type'' ''application/json'' (dict_heap w a)"
  by (simp add: effective_headers_def merge_headers_def new_dict_def dict_or_def)

lemma effective_headers_content_type:
  "map_of (effective_headers h w) ''Content-Type'' = Some ''application/json''"
  by (cases h)
     (simp_all add: effective_headers_def merge_headers_def new_dict_def dict_or_def
        AList.update_conv')


section \<open>Response decoding and the status check\<close>

text \<open>
  C1. For a call that is not a dry run and whose send yields the response \<open>r\<close>, decoding
  dispatches on the declared content type of \<open>r\<close>: when it equals \<open>application/json\<close>
  the result candidate is what \<open>r.json()\<close> yields; when it starts with \<open>text/plain\<close> the
  result candidate is the string \<open>r.text()\<close> yields; for every other content type the call
  ends with the \<open>RuntimeError\<close> "Unsupported response content type", whatever the status
  of \<open>r\<close> is, so before the status is looked at. In every case the call ends as decoding
  ends if decoding raises, and otherwise as the status check decides.
\<close>

theorem response_decoding_dispatch:
  assumes "priv_resolve_method m s = Inr f"
    and "net f url (effective_headers h w) (json_heap w b) = Inr r"
  shows "(content_type r = ''application/json'' \<longrightarrow> decode_response r = json r)
       \<and> (startswith (content_type r) ''text/plain'' \<longrightarrow>
            decode_response r = (case text_of r of Inl e \<Rightarrow> Inl e | Inr s \<Rightarrow> Inr (JStr s)))
       \<and> (content_type r \<noteq> ''application/json'' \<and> \<not> startswith (content_type r) ''text/plain'' \<longrightarrow>
            fst (priv_request net m url h b s False w) =
              Inl (RuntimeError (''Unsupported response content type: '' @ content_type r)))
       \<and> fst (priv_request net m url h b s False w) =
            (case decode_response r of
               Inl e \<Rightarrow> Inl e
             | Inr v \<Rightarrow> (case raise_for_status r of Inl e \<Rightarrow> Inl e | Inr _ \<Rightarrow> Inr v))"
proof -
  have result: "fst (priv_request net m url h b s False w) =
      (case decode_response r of
         Inl e \<Rightarrow> Inl e
       | Inr v \<Rightarrow> (case raise_for_status r of Inl e \<Rightarrow> Inl e | Inr _ \<Rightarrow> Inr v))"
    by (simp add: priv_request_result assms)
  have js: "content_type r = ''application/json'' \<longrightarrow> decode_response r = json r"
    by (simp add: decode_response_def)
  have tx: "startswith (content_type r) ''text/plain'' \<longrightarrow>
      decode_response r = (case text_of r of Inl e \<Rightarrow> Inl e | Inr s \<Rightarrow> Inr (JStr s))"
    using startswith_text_not_json [of "content_type r"] by (simp add: decode_response_def)
  have other: "content_type r \<noteq> ''application/json'' \<and> \<not> startswith (content_type r) ''text/plain'' \<longrightarrow>
      fst (priv_request net m url h b s False w) =
        Inl (RuntimeError (''Unsupported response content type: '' @ content_type r))"
    by (simp add: result decode_response_def)
  from js tx other result show ?thesis by blast
qed

theorem response_decoding_dispatch_witness:
  "decode_response response_json = Inr (JDict [(''a'', JInt 1)])
   \<and> decode_response response_text = Inr (JStr ''ok'')
   \<and> fst (priv_request (\<lambda>_ _ _ _. Inr response_xml) GET ''http://host/jobs'' (Some 0) 0
            session0 False world0) =
       Inl (RuntimeError ''Unsupported response content type: application/xml'')"
  using
    response_decoding_dispatch [where m = GET and s = session0 and f = "Session_get session0"
      and net = "\<lambda>_ _ _ _. Inr response_json" and r = response_json]
    response_decoding_dispatch [where m = GET and s = session0 and f = "Session_get session0"
      and net = "\<lambda>_ _ _ _. Inr response_text" and r = response_text]
    response_decoding_dispatch [where m = GET and s = session0 and f = "Session_get session0"
      and net = "\<lambda>_ _ _ _. Inr response_xml" and r = response_xml
      and url = "''http://host/jobs''" and h = "Some 0" and b = 0 and w = world0]
  by (simp add: priv_resolve_method_def startswith_def response_json_def response_text_def
        response_xml_def)

text \<open>
  C2. For a call that is not a dry run and whose send yields the response \<open>r\<close>, the body
  is decoded first and the status checked second: an exception of decoding ends the call
  whatever the status is; when decoding has produced a body and the status check raises,
  the call ends with that exception and the decoded body is not returned; and the status
  check raises for a 4xx or 5xx status, with a \<open>ClientResponseError\<close> carrying the status,
  the reason and the URL of \<open>r\<close>.
\<close>

theorem status_checked_after_decoding:
  assumes "priv_resolve_method m s = Inr f"
    and "net f url (effective_headers h w) (json_heap w b) = Inr r"
  shows "(\<forall>e. decode_response r = Inl e \<longrightarrow>
            fst (priv_request net m url h b s False w) = Inl e)
       \<and> (\<forall>v e. decode_response r = Inr v \<and> raise_for_status r = Inl e \<longrightarrow>
            fst (priv_request net m url h b s False w) = Inl e)
       \<and> (\<forall>v. decode_response r = Inr v \<and> 400 \<le> status r \<and> status r \<le> 599 \<longrightarrow>
            fst (priv_request net m url h b s False w) =
              Inl (ClientResponseError (status r) (reason r) (real_url r)))"
  by (simp add: priv_request_result assms raise_for_status_def)


theorem status_checked_after_decoding_witness:
  "decode_response response_404 = Inr (JDict [(''error'', JStr ''no such job'')])
   \<and> fst (priv_request (\<lambda>_ _ _ _. Inr response_404) GET ''http://host/jobs'' (Some 0) 0
            session0 False world0) =
       Inl (ClientResponseError 404 ''Not Found'' ''http://host/jobs'')
   \<and> fst (priv_request (\<lambda>_ _ _ _. Inr response_xml) GET ''http://host/jobs'' (Some 0) 0
            session0 False world0) =
       Inl (RuntimeError ''Unsupported response content type: application/xml'')"
  using
    status_checked_after_decoding [where m = GET and s = session0 and f = "Session_get session0"
      and net = "\<lambda>_ _ _ _. Inr response_404" and r = response_404
      and url = "''http://host/jobs''" and h = "Some 0" and b = 0 and w = world0]
    status_checked_after_decoding [where m = GET and s = session0 and f = "Session_get session0"
      and net = "\<lambda>_ _ _ _. Inr response_xml" and r = response_xml
      and url = "''http://host/jobs''" and h = "Some 0" and b = 0 and w = world0]
  by (simp add: priv_resolve_method_def decode_response_def startswith_def response_404_def
        response_xml_def)




section \<open>What a call does to its collaborators\<close>

text \<open>
  C3. The headers a call uses are the caller's headers united with
  \<open>{"Content-Type": "application/json"}\<close>, the latter winning on its key. With no caller
  headers they are that one entry. With a caller mapping at an allocated address they
  are that mapping with the value at \<open>Content-Type\<close> replaced in place, or the entry added
  at the end: as a mapping, the caller's overridden by the forced entry; as a list, with
  no key twice and no other value left at \<open>Content-Type\<close>. In every case they map
  \<open>Content-Type\<close> to \<open>application/json\<close>. A \<open>_request\<close> that is not a dry run invokes
  its sender with exactly these headers, and every send a call of \<open>request\<close> makes carries
  them.
\<close>

theorem effective_headers_union:
  "effective_headers None w = [(''Content-Type'', ''application/json'')]
   \<and> (a < next_dict w \<longrightarrow>
        effective_headers (Some a) w =
          AList.update ''Content-Type'' ''application/json'' (dict_heap w a))
   \<and> (a < next_dict w \<longrightarrow>
        map_of (effective_headers (Some a) w) =
          map_of (dict_heap w a) ++ map_of [(''Content-Type'', ''application/json'')])
   \<and> (a < next_dict w \<and> distinct (map fst (dict_heap w a)) \<longrightarrow>
        distinct (map fst (effective_headers (Some a) w))
        \<and> (\<forall>v. (''Content-Type'', v) \<in> set (effective_headers (Some a) w) \<longrightarrow>
               v = ''application/json''))
   \<and> map_of (effective_headers h w) ''Content-Type'' = Some ''application/json''
   \<and> (priv_resolve_method m s = Inr f \<longrightarrow>
        sends (trace (snd (priv_request net m url h b s False w))) =
          sends (trace w) @ [(f, url, effective_headers h w, json_heap w b)])
   \<and> (\<exists>fs. sends (trace (snd (request from_url net m url h b t p d w))) =
              sends (trace w) @ map (\<lambda>f. (f, url, effective_headers h w, json_heap w b)) fs)"
proof -
  have upd: "a < next_dict w \<longrightarrow>
      effective_headers (Some a) w =
        AList.update ''Content-Type'' ''application/json'' (dict_heap w a)"
    by (simp add: effective_headers_Some)
  have un: "a < next_dict w \<longrightarrow>
      map_of (effective_headers (Some a) w) =
        map_of (dict_heap w a) ++ map_of [(''Content-Type'', ''application/json'')]"
    by (simp add: effective_headers_Some AList.update_conv')
  have ct: "map_of (effective_headers h' w) ''Content-Type'' = Some ''application/json''" for h'
    by (rule effective_headers_content_type)
  have dist: "a < next_dict w \<and> distinct (map fst (dict_heap w a)) \<longrightarrow>
      distinct (map fst (effective_headers (Some a) w))
      \<and> (\<forall>v. (''Content-Type'', v) \<in> set (effective_headers (Some a) w) \<longrightarrow>
             v = ''application/json'')"
  proof (intro impI allI conjI)
    assume a: "a < next_dict w \<and> distinct (map fst (dict_heap w a))"
    then show d: "distinct (map fst (effective_headers (Some a) w))"
      by (simp add: effective_headers_Some AList.distinct_update)
    fix v
    assume "(''Content-Type'', v) \<in> set (effective_headers (Some a) w)"
    with d have "map_of (effective_headers (Some a) w) ''Content-Type'' = Some v"
      by simp
    with ct [of "Some a"] show "v = ''application/json''"
      by simp
  qed
  have snd: "priv_resolve_method m s = Inr f \<longrightarrow>
      sends (trace (snd (priv_request net m url h b s False w))) =
        sends (trace w) @ [(f, url, effective_headers h w, json_heap w b)]"
    by (simp add: priv_request_trace sends_def)
  have "\<exists>fs. sends (trace (snd (request from_url net m url h b t p d w))) =
      sends (trace w) @ map (\<lambda>f. (f, url, effective_headers h w, json_heap w b)) fs"
    by (rule request_sends_carry)
  with upd un dist ct [of h] snd effective_headers_None [of w] show ?thesis
    by (intro conjI)
qed

theorem effective_headers_union_witness:
  "effective_headers (Some 0) world0 =
     [(''Accept'', ''*/*''), (''Content-Type'', ''application/json'')]
   \<and> sends (trace (snd (priv_request network0 POST ''http://host/jobs'' (Some 0) 0 session0
        False world0))) =
     [(Session_post session0, ''http://host/jobs'',
       [(''Accept'', ''*/*''), (''Content-Type'', ''application/json'')],
       JDict [(''job'', JInt 7)])]"
proof -
  note u = effective_headers_union [where a = 0 and w = world0 and m = POST and s = session0
      and f = "Session_post session0" and h = "Some 0" and b = 0 and net = network0
      and url = "''http://host/jobs''"]
  have w: "trace world0 = []" "json_heap world0 0 = JDict [(''job'', JInt 7)]"
    "next_dict world0 = 1"
    "dict_heap world0 0 = [(''Accept'', ''*/*''), (''Content-Type'', ''text/xml'')]"
    by (simp_all add: world0_def)
  have eff: "effective_headers (Some 0) world0 =
      [(''Accept'', ''*/*''), (''Content-Type'', ''application/json'')]"
    using u [THEN conjunct2, THEN conjunct1] by (simp add: w)
  have "sends (trace (snd (priv_request network0 POST ''http://host/jobs'' (Some 0) 0 session0
        False world0))) =
      sends (trace world0)
      @ [(Session_post session0, ''http://host/jobs'', effective_headers (Some 0) world0,
          json_heap world0 0)]"
    using u [THEN conjunct2, THEN conjunct2, THEN conjunct2, THEN conjunct2, THEN conjunct2,
        THEN conjunct1]
    by (simp add: priv_resolve_method_def)
  then show ?thesis
    by (simp add: eff w sends_def)
qed

text \<open>
  C4, as the code has it. With \<open>dry_run\<close> true, \<open>request\<close> invokes no send operation,
  whatever its other arguments, and neither its outcome nor the resulting world depends
  on the network. It returns the empty mapping when \<open>proxy_url\<close> is omitted or accepted
  by the connector constructor. When the constructor raises, the call ends with that
  exception and returns nothing: the connector is constructed before the dry-run test
  is reached.
\<close>

theorem dry_run_no_network:
  "sends (trace (snd (request from_url net m url h b t p True w))) = sends (trace w)
   \<and> request from_url net m url h b t p True w = request from_url net' m url h b t p True w
   \<and> fst (request from_url net m url h b t None True w) = Inr (JDict [])
   \<and> (from_url q = Inr c \<longrightarrow>
        fst (request from_url net m url h b t (Some q) True w) = Inr (JDict []))
   \<and> (from_url q = Inl e \<longrightarrow>
        request from_url net m url h b t (Some q) True w = (Inl e, w))"
proof -
  have ok: "fst (request from_url net m url h b t p' True w) = Inr (JDict [])"
    if "connector_for from_url p' = Inr co" for p' co
  proof -
    obtain f where "priv_resolve_method m
        \<lparr>session_timeout_of =
           \<lparr>timeout_total = None, sock_connect = Some t, sock_read = Some t\<rparr>,
         session_connector = co\<rparr> = Inr f"
      using priv_resolve_method_total by blast
    then show ?thesis
      by (simp add: request_result [OF that])
  qed
  have "sends (trace (snd (request from_url net m url h b t p True w))) = sends (trace w)"
    by (rule request_sends_dry)
  moreover have "request from_url net m url h b t p True w =
      request from_url net' m url h b t p True w"
  proof (cases "connector_for from_url p")
    case (Inl e)
    then show ?thesis by (simp add: request_fail)
  next
    case (Inr co)
    show ?thesis
      unfolding request_unfold [OF Inr]
      by (simp add: priv_request_dry_net [of net _ _ _ _ _ _ net'])
  qed
  moreover have "fst (request from_url net m url h b t None True w) = Inr (JDict [])"
    by (rule ok [of None None]) (simp add: connector_for_def)
  moreover have "from_url q = Inr c \<longrightarrow>
      fst (request from_url net m url h b t (Some q) True w) = Inr (JDict [])"
    using ok [of "Some q" "Some c"] by (simp add: connector_for_def)
  moreover have "from_url q = Inl e \<longrightarrow>
      request from_url net m url h b t (Some q) True w = (Inl e, w)"
    by (simp add: request_fail connector_for_def)
  ultimately show ?thesis by blast
qed

theorem dry_run_no_network_witness:
  "fst (request from_url0 network0 GET ''http://host/jobs'' (Some 0) 0 600
          (Some ''socks5://127.0.0.1:1080'') True world0) = Inr (JDict [])
   \<and> request from_url0 network0 GET ''http://host/jobs'' (Some 0) 0 600
          (Some ''ftp://127.0.0.1'') True world0 =
       (Inl (ValueError ''Invalid scheme component''), world0)"
proof -
  have ok: "from_url0 ''socks5://127.0.0.1:1080'' = Inr (ProxyConnector ''socks5://127.0.0.1:1080'')"
    and no: "from_url0 ''ftp://127.0.0.1'' = Inl (ValueError ''Invalid scheme component'')"
    by (simp_all add: from_url0_def startswith_def)
  show ?thesis
    using
      dry_run_no_network [where from_url = from_url0 and q = "''socks5://127.0.0.1:1080''"
        and c = "ProxyConnector ''socks5://127.0.0.1:1080''", THEN conjunct2, THEN conjunct2,
        THEN conjunct2, THEN conjunct1, rule_format, OF ok]
      dry_run_no_network [where from_url = from_url0 and q = "''ftp://127.0.0.1''"
        and e = "ValueError ''Invalid scheme component''", THEN conjunct2, THEN conjunct2,
        THEN conjunct2, THEN conjunct2, rule_format, OF no]
    by (intro conjI)
qed

text \<open>
  The claim C4 as the spec states it, for every input, fails at a proxy URL the connector
  constructor rejects: the dry run raises instead of returning the empty mapping.
\<close>

theorem dry_run_raises_on_rejected_proxy:
  "fst (request from_url0 network0 GET ''http://host/jobs'' (Some 0) 0 600 (Some ''not a url'')
          True world0) = Inl (ValueError ''Invalid scheme component'')"
  by (simp add: request_fail connector_for_def from_url0_def startswith_def)

text \<open>
  C7, as the code has it. With \<open>proxy_url\<close> supplied and accepted by the connector
  constructor, a call constructs exactly one proxy connector, from that URL; the session
  it constructs has that connector; and a send goes through that session. When the
  constructor raises, the call ends with that exception: no connector, no session. With
  \<open>proxy_url\<close> omitted, a call constructs no proxy connector and its session has none.
\<close>

theorem proxy_connector_once:
  "(from_url q = Inr c \<longrightarrow>
      connectors_constructed (trace (snd (request from_url net m url h b t (Some q) d w))) =
        connectors_constructed (trace w) @ [q]
      \<and> map session_connector
            (sessions_entered (trace (snd (request from_url net m url h b t (Some q) d w)))) =
          map session_connector (sessions_entered (trace w)) @ [Some c]
      \<and> map (\<lambda>(f, u, hs, js). session_connector (session_of f))
            (sends (trace (snd (request from_url net m url h b t (Some q) False w)))) =
          map (\<lambda>(f, u, hs, js). session_connector (session_of f)) (sends (trace w))
          @ [Some c])
   \<and> (from_url q = Inl e \<longrightarrow>
        request from_url net m url h b t (Some q) d w = (Inl e, w))
   \<and> connectors_constructed (trace (snd (request from_url net m url h b t None d w))) =
       connectors_constructed (trace w)
   \<and> map session_connector
         (sessions_entered (trace (snd (request from_url net m url h b t None d w)))) =
       map session_connector (sessions_entered (trace w)) @ [None]"
proof -
  have none: "connector_for from_url None = Inr None"
    by (simp add: connector_for_def)
  have "from_url q = Inr c \<longrightarrow>
      connectors_constructed (trace (snd (request from_url net m url h b t (Some q) d w))) =
        connectors_constructed (trace w) @ [q]
      \<and> map session_connector
            (sessions_entered (trace (snd (request from_url net m url h b t (Some q) d w)))) =
          map session_connector (sessions_entered (trace w)) @ [Some c]
      \<and> map (\<lambda>(f, u, hs, js). session_connector (session_of f))
            (sends (trace (snd (request from_url net m url h b t (Some q) False w)))) =
          map (\<lambda>(f, u, hs, js). session_connector (session_of f)) (sends (trace w))
          @ [Some c]"
  proof
    assume "from_url q = Inr c"
    then have some: "connector_for from_url (Some q) = Inr (Some c)"
      by (simp add: connector_for_def)
    show "connectors_constructed (trace (snd (request from_url net m url h b t (Some q) d w))) =
        connectors_constructed (trace w) @ [q]
      \<and> map session_connector
            (sessions_entered (trace (snd (request from_url net m url h b t (Some q) d w)))) =
          map session_connector (sessions_entered (trace w)) @ [Some c]
      \<and> map (\<lambda>(f, u, hs, js). session_connector (session_of f))
            (sends (trace (snd (request from_url net m url h b t (Some q) False w)))) =
          map (\<lambda>(f, u, hs, js). session_connector (session_of f)) (sends (trace w))
          @ [Some c]"
      using request_sends_live [OF some, of t net m url h b w]
      by (auto simp add: request_sessions_entered [OF some]
            request_connectors_constructed [OF some])
  qed
  moreover have "from_url q = Inl e \<longrightarrow>
      request from_url net m url h b t (Some q) d w = (Inl e, w)"
    by (simp add: request_fail connector_for_def)
  ultimately show ?thesis
    by (simp add: request_sessions_entered [OF none] request_connectors_constructed [OF none])
qed

theorem proxy_connector_once_witness:
  "connectors_constructed (trace (snd (request from_url0 network0 GET ''http://host/jobs''
        (Some 0) 0 600 (Some ''socks5://127.0.0.1:1080'') False world0))) =
     [''socks5://127.0.0.1:1080'']
   \<and> map session_connector (sessions_entered (trace (snd (request from_url0 network0 GET
        ''http://host/jobs'' (Some 0) 0 600 (Some ''socks5://127.0.0.1:1080'') False world0)))) =
     [Some (ProxyConnector ''socks5://127.0.0.1:1080'')]
   \<and> request from_url0 network0 GET ''http://host/jobs'' (Some 0) 0 600
        (Some ''ftp://127.0.0.1'') False world0 =
     (Inl (ValueError ''Invalid scheme component''), world0)"
proof -
  have ok: "from_url0 ''socks5://127.0.0.1:1080'' = Inr (ProxyConnector ''socks5://127.0.0.1:1080'')"
    and no: "from_url0 ''ftp://127.0.0.1'' = Inl (ValueError ''Invalid scheme component'')"
    by (simp_all add: from_url0_def startswith_def)
  have w: "connectors_constructed (trace world0) = []" "sessions_entered (trace world0) = []"
    by (simp_all add: world0_def connectors_constructed_def sessions_entered_def)
  show ?thesis
    using
      proxy_connector_once [where from_url = from_url0 and q = "''socks5://127.0.0.1:1080''"
        and c = "ProxyConnector ''socks5://127.0.0.1:1080''" and w = world0 and d = False
        and net = network0 and m = GET and url = "''http://host/jobs''" and h = "Some 0"
        and b = 0 and t = 600, THEN conjunct1, rule_format, OF ok]
      proxy_connector_once [where from_url = from_url0 and q = "''ftp://127.0.0.1''"
        and e = "ValueError ''Invalid scheme component''", THEN conjunct2, THEN conjunct1,
        rule_format, OF no]
    by (simp add: w)
qed

text \<open>
  The claim C7 as the spec states it, for every call with \<open>proxy_url\<close> supplied, fails at
  a proxy URL the connector constructor rejects: no connector is constructed.
\<close>

theorem no_connector_on_rejected_proxy:
  "connectors_constructed (trace (snd (request from_url0 network0 GET ''http://host/jobs''
        (Some 0) 0 600 (Some ''not a url'') False world0))) = []"
  by (simp add: request_fail connector_for_def from_url0_def startswith_def world0_def
        connectors_constructed_def)

text \<open>
  C10, as the code has it. A dry run still constructs the proxy connector first when
  \<open>proxy_url\<close> is supplied, and then the session: with \<open>proxy_url\<close> omitted or accepted
  by the connector constructor, the calls a dry run makes are the connector construction
  (if any), entering the session, the debug log entry, the info log entry and leaving the
  session, so that only the send and the handling of its response are skipped. When the
  constructor raises, the call ends with that exception before any session is
  constructed and before anything is logged.
\<close>

theorem dry_run_constructs_session:
  "trace (snd (request from_url net m url h b t None True w)) =
     trace w
     @ [ClientSession_enter
          \<lparr>session_timeout_of =
             \<lparr>timeout_total = None, sock_connect = Some t, sock_read = Some t\<rparr>,
           session_connector = None\<rparr>,
        Logger_debug m url (effective_headers h w) (json_heap w b),
        Logger_info m url (effective_headers h w) (json_heap w b),
        ClientSession_exit
          \<lparr>session_timeout_of =
             \<lparr>timeout_total = None, sock_connect = Some t, sock_read = Some t\<rparr>,
           session_connector = None\<rparr>]
   \<and> (from_url q = Inr c \<longrightarrow>
        trace (snd (request from_url net m url h b t (Some q) True w)) =
          trace w
          @ [ProxyConnector_from_url q,
             ClientSession_enter
               \<lparr>session_timeout_of =
                  \<lparr>timeout_total = None, sock_connect = Some t, sock_read = Some t\<rparr>,
                session_connector = Some c\<rparr>,
             Logger_debug m url (effective_headers h w) (json_heap w b),
             Logger_info m url (effective_headers h w) (json_heap w b),
             ClientSession_exit
               \<lparr>session_timeout_of =
                  \<lparr>timeout_total = None, sock_connect = Some t, sock_read = Some t\<rparr>,
                session_connector = Some c\<rparr>])
   \<and> (from_url q = Inl e \<longrightarrow>
        request from_url net m url h b t (Some q) True w = (Inl e, w))"
proof -
  have none: "connector_for from_url None = Inr None"
    by (simp add: connector_for_def)
  have "trace (snd (request from_url net m url h b t None True w)) =
     trace w
     @ [ClientSession_enter
          \<lparr>session_timeout_of =
             \<lparr>timeout_total = None, sock_connect = Some t, sock_read = Some t\<rparr>,
           session_connector = None\<rparr>,
        Logger_debug m url (effective_headers h w) (json_heap w b),
        Logger_info m url (effective_headers h w) (json_heap w b),
        ClientSession_exit
          \<lparr>session_timeout_of =
             \<lparr>timeout_total = None, sock_connect = Some t, sock_read = Some t\<rparr>,
           session_connector = None\<rparr>]"
    using request_events [OF none, of m t net url h b True w] by auto
  moreover have "from_url q = Inr c \<longrightarrow>
        trace (snd (request from_url net m url h b t (Some q) True w)) =
          trace w
          @ [ProxyConnector_from_url q,
             ClientSession_enter
               \<lparr>session_timeout_of =
                  \<lparr>timeout_total = None, sock_connect = Some t, sock_read = Some t\<rparr>,
                session_connector = Some c\<rparr>,
             Logger_debug m url (effective_headers h w) (json_heap w b),
             Logger_info m url (effective_headers h w) (json_heap w b),
             ClientSession_exit
               \<lparr>session_timeout_of =
                  \<lparr>timeout_total = None, sock_connect = Some t, sock_read = Some t\<rparr>,
                session_connector = Some c\<rparr>]"
  proof
    assume "from_url q = Inr c"
    then have some: "connector_for from_url (Some q) = Inr (Some c)"
      by (simp add: connector_for_def)
    show "trace (snd (request from_url net m url h b t (Some q) True w)) =
          trace w
          @ [ProxyConnector_from_url q,
             ClientSession_enter
               \<lparr>session_timeout_of =
                  \<lparr>timeout_total = None, sock_connect = Some t, sock_read = Some t\<rparr>,
                session_connector = Some c\<rparr>,
             Logger_debug m url (effective_headers h w) (json_heap w b),
             Logger_info m url (effective_headers h w) (json_heap w b),
             ClientSession_exit
               \<lparr>session_timeout_of =
                  \<lparr>timeout_total = None, sock_connect = Some t, sock_read = Some t\<rparr>,
                session_connector = Some c\<rparr>]"
      using request_events [OF some, of m t net url h b True w] by auto
  qed
  moreover have "from_url q = Inl e \<longrightarrow>
      request from_url net m url h b t (Some q) True w = (Inl e, w)"
    by (simp add: request_fail connector_for_def)
  ultimately show ?thesis by (intro conjI)
qed

theorem dry_run_constructs_session_witness:
  "sessions_entered (trace (snd (request from_url0 network0 GET ''http://host/jobs'' (Some 0) 0
        600 (Some ''socks5://127.0.0.1:1080'') True world0))) =
     [\<lparr>session_timeout_of =
         \<lparr>timeout_total = None, sock_connect = Some 600, sock_read = Some 600\<rparr>,
       session_connector = Some (ProxyConnector ''socks5://127.0.0.1:1080'')\<rparr>]
   \<and> connectors_constructed (trace (snd (request from_url0 network0 GET ''http://host/jobs''
        (Some 0) 0 600 (Some ''socks5://127.0.0.1:1080'') True world0))) =
     [''socks5://127.0.0.1:1080'']
   \<and> request from_url0 network0 GET ''http://host/jobs'' (Some 0) 0 600
        (Some ''ftp://127.0.0.1'') True world0 =
     (Inl (ValueError ''Invalid scheme component''), world0)"
proof -
  have ok: "from_url0 ''socks5://127.0.0.1:1080'' = Inr (ProxyConnector ''socks5://127.0.0.1:1080'')"
    and no: "from_url0 ''ftp://127.0.0.1'' = Inl (ValueError ''Invalid scheme component'')"
    by (simp_all add: from_url0_def startswith_def)
  have w: "trace world0 = []"
    by (simp add: world0_def)
  show ?thesis
    using
      dry_run_constructs_session [where from_url = from_url0
        and q = "''socks5://127.0.0.1:1080''"
        and c = "ProxyConnector ''socks5://127.0.0.1:1080''" and w = world0
        and net = network0 and m = GET and url = "''http://host/jobs''" and h = "Some 0"
        and b = 0 and t = 600, THEN conjunct2, THEN conjunct1, rule_format, OF ok]
      dry_run_constructs_session [where from_url = from_url0 and q = "''ftp://127.0.0.1''"
        and e = "ValueError ''Invalid scheme component''", THEN conjunct2, THEN conjunct2,
        rule_format, OF no]
    by (simp add: w sessions_entered_def connectors_constructed_def)
qed

text \<open>
  The claim C10 as stated, for every dry run, fails at a proxy URL the connector
  constructor rejects: no session is constructed.
\<close>

theorem no_session_on_rejected_proxy:
  "sessions_entered (trace (snd (request from_url0 network0 GET ''http://host/jobs'' (Some 0) 0
        600 (Some ''not a url'') True world0))) = []"
  by (simp add: request_fail connector_for_def from_url0_def startswith_def world0_def
        sessions_entered_def)


section \<open>Repeated dry runs and the caller's objects\<close>

text \<open>
  The headers a call uses do not change while the caller's mapping does not; and any
  number of dry runs in a row, by induction on their number.
\<close>

lemma effective_headers_stable:
  assumes "case h of None \<Rightarrow> True | Some a \<Rightarrow> a < next_dict w"
    and "next_dict w \<le> next_dict w'"
    and "\<forall>a<next_dict w. dict_heap w' a = dict_heap w a"
  shows "effective_headers h w' = effective_headers h w"
proof (cases h)
  case None
  then show ?thesis by (simp add: effective_headers_None)
next
  case (Some a)
  with assms have "a < next_dict w" "a < next_dict w'" "dict_heap w' a = dict_heap w a"
    by auto
  then show ?thesis
    by (simp add: Some effective_headers_Some)
qed

lemma request_n_dry:
  assumes c: "connector_for from_url p = Inr co"
  shows "(case h of None \<Rightarrow> True | Some a \<Rightarrow> a < next_dict w) \<Longrightarrow>
     fst (request_n n from_url net m url h b t p True w) = replicate n (Inr (JDict []))
   \<and> sends (trace (snd (request_n n from_url net m url h b t p True w))) = sends (trace w)
   \<and> json_heap (snd (request_n n from_url net m url h b t p True w)) = json_heap w
   \<and> next_dict w \<le> next_dict (snd (request_n n from_url net m url h b t p True w))
   \<and> (\<forall>a<next_dict w.
         dict_heap (snd (request_n n from_url net m url h b t p True w)) a = dict_heap w a)
   \<and> trace (snd (request_n n from_url net m url h b t p True w)) =
       trace w
       @ concat (replicate n
           ((case p of None \<Rightarrow> [] | Some q \<Rightarrow> [ProxyConnector_from_url q])
            @ [ClientSession_enter
                 \<lparr>session_timeout_of =
                    \<lparr>timeout_total = None, sock_connect = Some t, sock_read = Some t\<rparr>,
                  session_connector = co\<rparr>,
               Logger_debug m url (effective_headers h w) (json_heap w b),
               Logger_info m url (effective_headers h w) (json_heap w b),
               ClientSession_exit
                 \<lparr>session_timeout_of =
                    \<lparr>timeout_total = None, sock_connect = Some t, sock_read = Some t\<rparr>,
                  session_connector = co\<rparr>]))"
proof (induction n arbitrary: w)
  case 0
  show ?case by simp
next
  case (Suc n)
  let ?S = "\<lparr>session_timeout_of =
               \<lparr>timeout_total = None, sock_connect = Some t, sock_read = Some t\<rparr>,
             session_connector = co\<rparr>"
  let ?E = "\<lambda>w. (case p of None \<Rightarrow> [] | Some q \<Rightarrow> [ProxyConnector_from_url q])
            @ [ClientSession_enter ?S,
               Logger_debug m url (effective_headers h w) (json_heap w b),
               Logger_info m url (effective_headers h w) (json_heap w b),
               ClientSession_exit ?S]"
  obtain r w1 where first: "request from_url net m url h b t p True w = (r, w1)"
    by (cases "request from_url net m url h b t p True w")
  obtain rs w2 where rest: "request_n n from_url net m url h b t p True w1 = (rs, w2)"
    by (cases "request_n n from_url net m url h b t p True w1")
  obtain f where "priv_resolve_method m ?S = Inr f"
    using priv_resolve_method_total by blast
  then have r: "r = Inr (JDict [])"
    using request_result [OF c, of net m url h b t True w] first by simp
  have t1: "trace w1 = trace w @ ?E w"
    using request_events [OF c, of m t net url h b True w] first by auto
  have s1: "sends (trace w1) = sends (trace w)"
    using request_sends_dry [of from_url net m url h b t p w] first by simp
  have j1: "json_heap w1 = json_heap w"
    using request_json_heap [of from_url net m url h b t p True w] first by simp
  have n1: "next_dict w \<le> next_dict w1"
    using request_next_dict [of w from_url net m url h b t p True] first by simp
  have d1: "\<forall>a<next_dict w. dict_heap w1 a = dict_heap w a"
    using request_dict_heap [of _ w from_url net m url h b t p True] first by simp
  have v1: "case h of None \<Rightarrow> True | Some a \<Rightarrow> a < next_dict w1"
    using Suc.prems n1 by (cases h) auto
  have e1: "effective_headers h w1 = effective_headers h w"
    using effective_headers_stable [OF Suc.prems n1 d1] .
  from Suc.IH [OF v1]
  have ih0: "rs = replicate n (Inr (JDict []))
      \<and> sends (trace w2) = sends (trace w1)
      \<and> json_heap w2 = json_heap w1
      \<and> next_dict w1 \<le> next_dict w2
      \<and> (\<forall>a<next_dict w1. dict_heap w2 a = dict_heap w1 a)
      \<and> trace w2 = trace w1 @ concat (replicate n (?E w1))"
    unfolding rest fst_conv snd_conv .
  note ih1 = ih0 [THEN conjunct1]
    and ih2 = ih0 [THEN conjunct2, THEN conjunct1]
    and ih3 = ih0 [THEN conjunct2, THEN conjunct2, THEN conjunct1]
    and ih4 = ih0 [THEN conjunct2, THEN conjunct2, THEN conjunct2, THEN conjunct1]
    and ih5 = ih0 [THEN conjunct2, THEN conjunct2, THEN conjunct2, THEN conjunct2,
        THEN conjunct1]
    and ih6 = ih0 [THEN conjunct2, THEN conjunct2, THEN conjunct2, THEN conjunct2,
        THEN conjunct2]
  have frame: "\<forall>a<next_dict w. dict_heap w2 a = dict_heap w a"
    using ih5 d1 n1 by auto
  have "trace w2 = (trace w @ ?E w) @ concat (replicate n (?E w))"
    using ih6 unfolding t1 e1 j1 .
  then have tr: "trace w2 = trace w @ concat (replicate (Suc n) (?E w))"
    by simp
  have nx: "next_dict w \<le> next_dict w2"
    using n1 ih4 by simp
  have eq: "request_n (Suc n) from_url net m url h b t p True w = (r # rs, w2)"
    by (simp add: first rest)
  show ?case
    unfolding eq fst_conv snd_conv
  proof (intro conjI)
    show "r # rs = replicate (Suc n) (Inr (JDict []))"
      by (simp add: r ih1)
    show "sends (trace w2) = sends (trace w)"
      by (simp add: ih2 s1)
    show "json_heap w2 = json_heap w"
      by (simp add: ih3 j1)
    show "next_dict w \<le> next_dict w2"
      by (rule nx)
    show "\<forall>a<next_dict w. dict_heap w2 a = dict_heap w a"
      by (rule frame)
    show "trace w2 =
      trace w
      @ concat (replicate (Suc n)
          ((case p of None \<Rightarrow> [] | Some q \<Rightarrow> [ProxyConnector_from_url q])
           @ [ClientSession_enter ?S,
              Logger_debug m url (effective_headers h w) (json_heap w b),
              Logger_info m url (effective_headers h w) (json_heap w b),
              ClientSession_exit ?S]))"
      by (rule tr)
  qed
qed

text \<open>
  C8, as the code has it. For a valid input (a proxy URL omitted or accepted by the
  connector constructor, caller headers omitted or at an allocated address), any number
  of dry runs with the same arguments all return the same result, the empty mapping;
  they invoke no send operation; and they change no object that existed before the first
  of them. They are not free of effects: each of them constructs its connector (if any)
  and its session, hands a debug and an info record to the logger, and leaves the
  session, every time with the same arguments.
\<close>

theorem dry_run_repeatable:
  assumes "connector_for from_url p = Inr co"
    and "case h of None \<Rightarrow> True | Some a \<Rightarrow> a < next_dict w"
  shows "fst (request_n n from_url net m url h b t p True w) = replicate n (Inr (JDict []))
   \<and> sends (trace (snd (request_n n from_url net m url h b t p True w))) = sends (trace w)
   \<and> json_heap (snd (request_n n from_url net m url h b t p True w)) = json_heap w
   \<and> (\<forall>a<next_dict w.
         dict_heap (snd (request_n n from_url net m url h b t p True w)) a = dict_heap w a)
   \<and> trace (snd (request_n n from_url net m url h b t p True w)) =
       trace w
       @ concat (replicate n
           ((case p of None \<Rightarrow> [] | Some q \<Rightarrow> [ProxyConnector_from_url q])
            @ [ClientSession_enter
                 \<lparr>session_timeout_of =
                    \<lparr>timeout_total = None, sock_connect = Some t, sock_read = Some t\<rparr>,
                  session_connector = co\<rparr>,
               Logger_debug m url (effective_headers h w) (json_heap w b),
               Logger_info m url (effective_headers h w) (json_heap w b),
               ClientSession_exit
                 \<lparr>session_timeout_of =
                    \<lparr>timeout_total = None, sock_connect = Some t, sock_read = Some t\<rparr>,
                  session_connector = co\<rparr>]))"
  using request_n_dry [OF assms, of n net m url b t] by (elim conjE) (intro conjI, assumption+)

theorem dry_run_repeatable_witness:
  "fst (request_n 2 from_url0 network0 POST ''http://host/jobs'' (Some 0) 0 600 None True
          world0) = [Inr (JDict []), Inr (JDict [])]
   \<and> sends (trace (snd (request_n 2 from_url0 network0 POST ''http://host/jobs'' (Some 0) 0
          600 None True world0))) = []
   \<and> dict_heap (snd (request_n 2 from_url0 network0 POST ''http://host/jobs'' (Some 0) 0 600
          None True world0)) 0 = [(''Accept'', ''*/*''), (''Content-Type'', ''text/xml'')]
   \<and> length (trace (snd (request_n 2 from_url0 network0 POST ''http://host/jobs'' (Some 0) 0
          600 None True world0))) = 8"
proof -
  have c: "connector_for from_url0 None = Inr None"
    by (simp add: connector_for_def)
  have w: "trace world0 = []" "next_dict world0 = 1"
    "dict_heap world0 0 = [(''Accept'', ''*/*''), (''Content-Type'', ''text/xml'')]"
    by (simp_all add: world0_def)
  have v: "case Some 0 of None \<Rightarrow> True | Some a \<Rightarrow> a < next_dict world0"
    by (simp add: w)
  note u = dry_run_repeatable [OF c v, of 2 network0 POST "''http://host/jobs''" 0 600]
  show ?thesis
    using u [THEN conjunct1] u [THEN conjunct2, THEN conjunct1]
      u [THEN conjunct2, THEN conjunct2, THEN conjunct2, THEN conjunct1]
      u [THEN conjunct2, THEN conjunct2, THEN conjunct2, THEN conjunct2]
    by (simp add: w sends_def numeral_2_eq_2)
qed

text \<open>
  The claim C8 as the spec states it, free of side effects, fails at a valid input: one
  dry run on a world where nothing has been done yet constructs and leaves a session and
  makes two logger calls.
\<close>

theorem dry_run_has_effects:
  "trace world0 = []
   \<and> trace (snd (request from_url0 network0 POST ''http://host/jobs'' (Some 0) 0 600 None True
        world0)) =
     [ClientSession_enter session0,
      Logger_debug POST ''http://host/jobs''
        [(''Accept'', ''*/*''), (''Content-Type'', ''application/json'')]
        (JDict [(''job'', JInt 7)]),
      Logger_info POST ''http://host/jobs''
        [(''Accept'', ''*/*''), (''Content-Type'', ''application/json'')]
        (JDict [(''job'', JInt 7)]),
      ClientSession_exit session0]"
proof -
  have c: "connector_for from_url0 None = Inr None"
    by (simp add: connector_for_def)
  have w: "trace world0 = []" "next_dict world0 = 1"
    "json_heap world0 0 = JDict [(''job'', JInt 7)]"
    "dict_heap world0 0 = [(''Accept'', ''*/*''), (''Content-Type'', ''text/xml'')]"
    by (simp_all add: world0_def)
  have eff: "effective_headers (Some 0) world0 =
      [(''Accept'', ''*/*''), (''Content-Type'', ''application/json'')]"
    by (simp add: effective_headers_Some w)
  show ?thesis
    using request_events [OF c, of POST 600 network0 "''http://host/jobs''" "Some 0" 0 True world0]
    by (auto simp add: w eff session0_def)
qed

text \<open>
  C9. A call, whether it returns or raises, leaves every header mapping that existed
  before it with the contents it had, and every JSON body as it was; the merged headers
  are a new object, at an address that was not allocated before the call.
\<close>

theorem caller_arguments_not_mutated:
  "(\<forall>a<next_dict w. dict_heap (snd (request from_url net m url h b t p d w)) a = dict_heap w a)
   \<and> json_heap (snd (request from_url net m url h b t p d w)) = json_heap w
   \<and> next_dict w \<le> fst (merge_headers h w)"
  by (simp add: request_dict_heap request_json_heap fresh_merge_headers)

theorem caller_arguments_not_mutated_witness:
  "dict_heap (snd (request from_url0 (\<lambda>_ _ _ _. Inr response_404) POST ''http://host/jobs''
          (Some 0) 0 600 None False world0)) 0 =
     [(''Accept'', ''*/*''), (''Content-Type'', ''text/xml'')]
   \<and> json_heap (snd (request from_url0 (\<lambda>_ _ _ _. Inr response_404) POST ''http://host/jobs''
          (Some 0) 0 600 None False world0)) 0 = JDict [(''job'', JInt 7)]
   \<and> 1 \<le> fst (merge_headers (Some 0) world0)"
  using caller_arguments_not_mutated [where w = world0]
  by (simp add: world0_def)


end
